theory Spec2Isabelle
  imports Complex_Main
begin

section \<open>Values\<close>

subsection \<open>numpy float64 values\<close>

text \<open>
  The estimator computes on numpy \<open>float64\<close> arrays. A value is modelled as a real
  number or one of the three special values the source tests for (\<open>np.isnan\<close>,
  \<open>np.isinf\<close>, \<open>-np.inf\<close>). Finite arithmetic is exact: overflow and the sign of zero are
  outside the model, and so is rounding, except where a product is truncated to a count
  (\<open>_sample\<close>), where the rounding is a parameter. The special values follow IEEE 754 as numpy
  applies it to arrays and to \<open>np.float64\<close> scalars (no exception, a value).
\<close>

datatype npfloat = Fin real | PInf | NInf | NaN

fun fneg :: "npfloat \<Rightarrow> npfloat" where
  "fneg (Fin x) = Fin (- x)"
| "fneg PInf = NInf"
| "fneg NInf = PInf"
| "fneg NaN = NaN"

fun fadd :: "npfloat \<Rightarrow> npfloat \<Rightarrow> npfloat" where
  "fadd NaN _ = NaN"
| "fadd _ NaN = NaN"
| "fadd PInf NInf = NaN"
| "fadd NInf PInf = NaN"
| "fadd PInf _ = PInf"
| "fadd _ PInf = PInf"
| "fadd NInf _ = NInf"
| "fadd _ NInf = NInf"
| "fadd (Fin x) (Fin y) = Fin (x + y)"

definition inf_of_sign :: "real \<Rightarrow> npfloat" where
  "inf_of_sign s = (if s = 0 then NaN else if 0 < s then PInf else NInf)"

fun fmul :: "npfloat \<Rightarrow> npfloat \<Rightarrow> npfloat" where
  "fmul NaN _ = NaN"
| "fmul _ NaN = NaN"
| "fmul (Fin x) (Fin y) = Fin (x * y)"
| "fmul (Fin x) PInf = inf_of_sign x"
| "fmul (Fin x) NInf = inf_of_sign (- x)"
| "fmul PInf (Fin y) = inf_of_sign y"
| "fmul NInf (Fin y) = inf_of_sign (- y)"
| "fmul PInf PInf = PInf"
| "fmul NInf NInf = PInf"
| "fmul PInf NInf = NInf"
| "fmul NInf PInf = NInf"

fun fdiv :: "npfloat \<Rightarrow> npfloat \<Rightarrow> npfloat" where
  "fdiv NaN _ = NaN"
| "fdiv _ NaN = NaN"
| "fdiv (Fin x) (Fin y) = (if y = 0 then inf_of_sign x else Fin (x / y))"
| "fdiv (Fin x) _ = Fin 0"
| "fdiv PInf (Fin y) = (if 0 \<le> y then PInf else NInf)"
| "fdiv NInf (Fin y) = (if 0 \<le> y then NInf else PInf)"
| "fdiv _ _ = NaN"

text \<open>Comparisons: every comparison with NaN is false.\<close>

fun flt :: "npfloat \<Rightarrow> npfloat \<Rightarrow> bool" where
  "flt NaN _ = False"
| "flt _ NaN = False"
| "flt (Fin x) (Fin y) = (x < y)"
| "flt _ NInf = False"
| "flt PInf _ = False"
| "flt _ PInf = True"
| "flt NInf _ = True"

definition fgt :: "npfloat \<Rightarrow> npfloat \<Rightarrow> bool" where
  "fgt a b = flt b a"

fun feq :: "npfloat \<Rightarrow> npfloat \<Rightarrow> bool" where
  "feq NaN _ = False"
| "feq _ NaN = False"
| "feq a b = (a = b)"

definition fle :: "npfloat \<Rightarrow> npfloat \<Rightarrow> bool" where
  "fle a b = (flt a b \<or> feq a b)"

definition isnan :: "npfloat \<Rightarrow> bool" where
  "isnan a = (a = NaN)"

definition isinf :: "npfloat \<Rightarrow> bool" where
  "isinf a = (a = PInf \<or> a = NInf)"

text \<open>\<open>np.log\<close> on an array: \<open>log 0 = -inf\<close> and the logarithm of a negative number is NaN.\<close>

fun flog :: "npfloat \<Rightarrow> npfloat" where
  "flog (Fin x) = (if x = 0 then NInf else if x < 0 then NaN else Fin (ln x))"
| "flog PInf = PInf"
| "flog NInf = NaN"
| "flog NaN = NaN"

text \<open>Truth value of a float (\<open>np.any\<close>, \<open>bool\<close>): everything but zero is true, NaN too.\<close>

definition truthy :: "npfloat \<Rightarrow> bool" where
  "truthy a = (a \<noteq> Fin 0)"

definition np_any :: "npfloat list \<Rightarrow> bool" where
  "np_any xs = list_ex truthy xs"

text \<open>A boolean used as a number (\<open>(bw == 0.) * 0.001\<close>).\<close>

definition of_bool_f :: "bool \<Rightarrow> npfloat" where
  "of_bool_f b = (if b then Fin 1 else Fin 0)"

text \<open>\<open>sum\<close> and \<open>np.sum\<close>: a left fold from zero.\<close>

definition fsum :: "npfloat list \<Rightarrow> npfloat" where
  "fsum xs = foldl fadd (Fin 0) xs"

subsection \<open>Exceptions\<close>

datatype pyexn =
  IndexError | ValueError | ZeroDivisionError | AssertionError | AttributeError
  | OverflowError | TypeError | KeyboardInterrupt | OtherError string

subsection \<open>Two-dimensional arrays\<close>

text \<open>
  A two-dimensional ndarray has its shape whatever its content: \<open>ncols\<close> is kept beside
  the rows, so that an array of no rows still has a second dimension.
\<close>

record ndarray =
  ncols :: nat
  rows :: "npfloat list list"

definition nrows :: "ndarray \<Rightarrow> nat" where
  "nrows m = length (rows m)"

definition wf_array :: "ndarray \<Rightarrow> bool" where
  "wf_array m = list_all (\<lambda>r. length r = ncols m) (rows m)"

definition np_zeros :: "nat \<Rightarrow> nat \<Rightarrow> ndarray" where
  "np_zeros n d = \<lparr>ncols = d, rows = replicate n (replicate d (Fin 0))\<rparr>"

section \<open>AKDE: the density estimator (kde\_wrapper.py)\<close>

text \<open>
  \<open>sm.nonparametric.KDEMultivariate\<close> is a class of the statsmodels library. The model
  keeps what the constructor is given: the data, the variable types and the bandwidth.
  The library's constructor raises ValueError unless there are more observations than
  variables.
\<close>

record kde_multivariate =
  kde_data :: ndarray
  var_type :: string
  kde_bw :: "npfloat list"

record akde =
  data_of :: ndarray                  \<comment> \<open>\<open>self._data\<close>\<close>
  n_kernels :: nat                    \<comment> \<open>\<open>self._n_kernels\<close>\<close>
  n_features :: nat                   \<comment> \<open>\<open>self._n_features\<close>\<close>
  weights :: "npfloat list"           \<comment> \<open>\<open>self._weights\<close>\<close>
  bw_of :: "npfloat list"             \<comment> \<open>\<open>self._bw\<close>\<close>
  kde_of :: kde_multivariate          \<comment> \<open>\<open>self._kde\<close>\<close>

text \<open>
  The two bandwidth selectors \<open>_ksizeHall\<close> and \<open>_ksizeROT\<close> are numerical routines
  (standard deviation, interquartile range, Gaussian curvature sums, complex powers).
  The constructor is modelled for any pair of selectors; a selector returns a bandwidth
  vector or raises.
\<close>

type_synonym selector = "ndarray \<Rightarrow> pyexn + npfloat list"

text \<open>\<open>bw + (bw == 0.)*0.001\<close>, elementwise.\<close>

definition replace_zero :: "npfloat list \<Rightarrow> npfloat list" where
  "replace_zero bw = map (\<lambda>b. fadd b (fmul (of_bool_f (feq b (Fin 0))) (Fin 0.001))) bw"

text \<open>\<open>np.isnan(bw).any() or np.isinf(bw).any()\<close>\<close>

definition degenerate :: "npfloat list \<Rightarrow> bool" where
  "degenerate bw = (list_ex isnan bw \<or> list_ex isinf bw)"

text \<open>Lines 32 to 35: the bandwidth the constructor goes on with.\<close>

definition select_bw :: "selector \<Rightarrow> selector \<Rightarrow> ndarray \<Rightarrow> npfloat list option \<Rightarrow> pyexn + npfloat list" where
  "select_bw hall rot data bw =
     (case bw of
        Some b \<Rightarrow> Inr b
      | None \<Rightarrow>
          (case hall data of
             Inl e \<Rightarrow> Inl e
           | Inr h \<Rightarrow> if degenerate h then rot data else Inr h))"

text \<open>
  The constructor. With no weights given, \<open>1. / self._n_kernels\<close> divides a Python float
  by a Python int, which raises for an array of no rows.
\<close>

definition AKDE_init ::
  "selector \<Rightarrow> selector \<Rightarrow> ndarray \<Rightarrow> npfloat list option \<Rightarrow> npfloat list option \<Rightarrow> pyexn + akde" where
  "AKDE_init hall rot data wts bw =
     (let n = nrows data; d = ncols data;
          w = (case wts of Some w \<Rightarrow> w | None \<Rightarrow> replicate n (fdiv (Fin 1) (Fin (real n))))
      in if wts = None \<and> n = 0 then Inl ZeroDivisionError
         else case select_bw hall rot data bw of
           Inl e \<Rightarrow> Inl e
         | Inr b \<Rightarrow>
             if n \<le> d then Inl ValueError
             else
             Inr \<lparr>data_of = data, n_kernels = n, n_features = d, weights = w,
                  bw_of = replace_zero b,
                  kde_of = \<lparr>kde_data = data, var_type = replicate d (CHR ''c''), kde_bw = b\<rparr>\<rparr>)"

text \<open>
  \<open>predict\<close> hands the points to \<open>self._kde.pdf\<close>. The density evaluation is statsmodels'
  own; it is a parameter of the model, and may raise.
\<close>

type_synonym density = "kde_multivariate \<Rightarrow> npfloat list list \<Rightarrow> pyexn + npfloat list"

definition predict :: "density \<Rightarrow> akde \<Rightarrow> npfloat list list \<Rightarrow> pyexn + npfloat list" where
  "predict pdf a pts = pdf (kde_of a) pts"

section \<open>Properties of the constructor\<close>

lemma replace_zero_nth:
  "replace_zero bw = map (\<lambda>b. if b = Fin 0 then Fin 0.001 else b) bw"
proof -
  have "fadd b (fmul (of_bool_f (feq b (Fin 0))) (Fin 0.001)) = (if b = Fin 0 then Fin 0.001 else b)" for b
    by (cases b) (auto simp: of_bool_f_def)
  then show ?thesis by (simp add: replace_zero_def)
qed

lemma replace_zero_nonzero: "Fin 0 \<notin> set (replace_zero bw)"
  by (auto simp: replace_zero_nth)

text \<open>
  C3. After construction the stored bandwidth vector \<open>self._bw\<close> has no component equal to
  zero: it is the selected bandwidth (given, or chosen by the selectors) with every zero
  component replaced by 0.001 and every other component unchanged.
\<close>

theorem C3_stored_bandwidth_never_zero:
  assumes "AKDE_init hall rot data wts bw = Inr a"
  shows "Fin 0 \<notin> set (bw_of a) \<and>
         (\<exists>b. select_bw hall rot data bw = Inr b \<and>
              bw_of a = map (\<lambda>x. if x = Fin 0 then Fin 0.001 else x) b)"
  using assms
  by (auto simp: AKDE_init_def Let_def replace_zero_nth split: if_splits sum.splits)

definition data_2x1 :: ndarray where
  "data_2x1 = \<lparr>ncols = 1, rows = [[Fin 1], [Fin 1]]\<rparr>"

definition akde_given_zero :: akde where
  "akde_given_zero =
     \<lparr>data_of = data_2x1, n_kernels = 2, n_features = 1,
      weights = [Fin (1/2), Fin (1/2)], bw_of = [Fin 0.001],
      kde_of = \<lparr>kde_data = data_2x1, var_type = ''c'', kde_bw = [Fin 0]\<rparr>\<rparr>"

lemma AKDE_init_given_zero:
  "AKDE_init h r data_2x1 None (Some [Fin 0]) = Inr akde_given_zero"
  by (simp add: AKDE_init_def select_bw_def data_2x1_def nrows_def replace_zero_nth
      akde_given_zero_def)

theorem C3_stored_bandwidth_never_zero_witness:
  "AKDE_init (\<lambda>_. Inl ValueError) (\<lambda>_. Inl ValueError) data_2x1 None (Some [Fin 0])
     = Inr akde_given_zero \<and>
   Fin 0 \<notin> set (bw_of akde_given_zero) \<and> bw_of akde_given_zero = [Fin 0.001]"
  using C3_stored_bandwidth_never_zero [OF AKDE_init_given_zero [of "\<lambda>_. Inl ValueError" "\<lambda>_. Inl ValueError"]]
  by (simp add: AKDE_init_given_zero akde_given_zero_def)

text \<open>
  C4. The multivariate KDE that \<open>predict\<close> evaluates is built with the selected bandwidth
  as it was before the replacement: when that bandwidth has a zero component, so has the
  bandwidth of \<open>self._kde\<close>, while the stored vector \<open>self._bw\<close> differs from it; and
  \<open>predict\<close> is the density of \<open>self._kde\<close>.
\<close>

theorem C4_kde_fit_with_unreplaced_bandwidth:
  assumes "AKDE_init hall rot data wts bw = Inr a"
      and "select_bw hall rot data bw = Inr b"
      and "Fin 0 \<in> set b"
  shows "kde_bw (kde_of a) = b \<and> Fin 0 \<in> set (kde_bw (kde_of a)) \<and>
         bw_of a = replace_zero b \<and> bw_of a \<noteq> kde_bw (kde_of a) \<and>
         predict pdf a pts = pdf \<lparr>kde_data = data, var_type = replicate (ncols data) (CHR ''c''), kde_bw = b\<rparr> pts"
proof -
  from assms(1,2) have a: "a = \<lparr>data_of = data, n_kernels = nrows data, n_features = ncols data,
      weights = (case wts of Some w \<Rightarrow> w | None \<Rightarrow> replicate (nrows data) (fdiv (Fin 1) (Fin (real (nrows data))))),
      bw_of = replace_zero b,
      kde_of = \<lparr>kde_data = data, var_type = replicate (ncols data) (CHR ''c''), kde_bw = b\<rparr>\<rparr>"
    by (auto simp: AKDE_init_def Let_def split: if_splits)
  have "replace_zero b \<noteq> b"
    using assms(3) replace_zero_nonzero [of b] by auto
  with a assms(3) show ?thesis by (simp add: predict_def)
qed

theorem C4_kde_fit_with_unreplaced_bandwidth_witness:
  "AKDE_init (\<lambda>_. Inl ValueError) (\<lambda>_. Inl ValueError) data_2x1 None (Some [Fin 0])
     = Inr akde_given_zero \<and>
   select_bw (\<lambda>_. Inl ValueError) (\<lambda>_. Inl ValueError) data_2x1 (Some [Fin 0]) = Inr [Fin 0] \<and>
   Fin 0 \<in> set [Fin 0] \<and>
   kde_bw (kde_of akde_given_zero) = [Fin 0] \<and> bw_of akde_given_zero = [Fin 0.001] \<and>
   predict (\<lambda>k pts. Inr (map (\<lambda>p. fdiv (Fin 1) (hd (kde_bw k))) pts)) akde_given_zero [[Fin 1]]
     = Inr [PInf]"
proof -
  have s: "select_bw (\<lambda>_. Inl ValueError) (\<lambda>_. Inl ValueError) data_2x1 (Some [Fin 0]) = Inr [Fin 0]"
    by (simp add: select_bw_def)
  have m: "Fin 0 \<in> set [Fin 0]" by simp
  show ?thesis
    using C4_kde_fit_with_unreplaced_bandwidth [OF AKDE_init_given_zero s m,
        of "\<lambda>k pts. Inr (map (\<lambda>p. fdiv (Fin 1) (hd (kde_bw k))) pts)" "[[Fin 1]]"]
    by (simp add: AKDE_init_given_zero s replace_zero_nth inf_of_sign_def)
qed

text \<open>
  C5. Constructed with no bandwidth, the estimator asks the Hall plug-in method first.
  When every component of the Hall result is a finite number, that result is the
  bandwidth: it is passed to the KDE and, zeros replaced, stored. When a component is
  NaN, plus infinity or minus infinity, the Rule-of-Thumb method is asked, and its result
  is the bandwidth in the Hall result's place.
\<close>

theorem C5_hall_then_rule_of_thumb:
  assumes "AKDE_init hall rot data wts None = Inr a"
  shows "\<exists>h. hall data = Inr h \<and>
           ((\<forall>b \<in> set h. \<exists>x. b = Fin x) \<longrightarrow>
              kde_bw (kde_of a) = h \<and> bw_of a = replace_zero h) \<and>
           ((\<exists>b \<in> set h. b = NaN \<or> b = PInf \<or> b = NInf) \<longrightarrow>
              (\<exists>r. rot data = Inr r \<and> kde_bw (kde_of a) = r \<and> bw_of a = replace_zero r))"
proof -
  have fin: "\<not> degenerate h" if "\<forall>b \<in> set h. \<exists>x. b = Fin x" for h
    using that by (auto simp: degenerate_def list_ex_iff isnan_def isinf_def)
  have deg: "degenerate h" if "\<exists>b \<in> set h. b = NaN \<or> b = PInf \<or> b = NInf" for h
    using that by (auto simp: degenerate_def list_ex_iff isnan_def isinf_def)
  from assms obtain h where h: "hall data = Inr h"
    by (auto simp: AKDE_init_def select_bw_def Let_def split: if_splits sum.splits)
  have "kde_bw (kde_of a) = h \<and> bw_of a = replace_zero h" if "\<not> degenerate h"
    using assms h that
    by (auto simp: AKDE_init_def select_bw_def Let_def split: if_splits sum.splits)
  moreover have "\<exists>r. rot data = Inr r \<and> kde_bw (kde_of a) = r \<and> bw_of a = replace_zero r"
    if "degenerate h"
    using assms h that
    by (auto simp: AKDE_init_def select_bw_def Let_def split: if_splits sum.splits)
  ultimately show ?thesis using h fin deg by blast
qed

text \<open>
  Three constructions on the same data, with a Rule-of-Thumb result of 3: a Hall result
  with a NaN, one with an infinite component, and a finite one (which has a zero).
\<close>

definition akde_bw :: "npfloat list \<Rightarrow> akde" where
  "akde_bw b =
     \<lparr>data_of = data_2x1, n_kernels = 2, n_features = 1,
      weights = [Fin (1/2), Fin (1/2)], bw_of = replace_zero b,
      kde_of = \<lparr>kde_data = data_2x1, var_type = ''c'', kde_bw = b\<rparr>\<rparr>"

lemma AKDE_init_nan:
  "AKDE_init (\<lambda>_. Inr [NaN]) (\<lambda>_. Inr [Fin 3]) data_2x1 None None = Inr (akde_bw [Fin 3])"
  by (simp add: AKDE_init_def select_bw_def data_2x1_def nrows_def akde_bw_def
      degenerate_def isnan_def)

lemma AKDE_init_inf:
  "AKDE_init (\<lambda>_. Inr [PInf]) (\<lambda>_. Inr [Fin 3]) data_2x1 None None = Inr (akde_bw [Fin 3])"
  by (simp add: AKDE_init_def select_bw_def data_2x1_def nrows_def akde_bw_def
      degenerate_def isnan_def isinf_def)

lemma AKDE_init_finite:
  "AKDE_init (\<lambda>_. Inr [Fin 0]) (\<lambda>_. Inr [Fin 3]) data_2x1 None None = Inr (akde_bw [Fin 0])"
  by (simp add: AKDE_init_def select_bw_def data_2x1_def nrows_def akde_bw_def
      degenerate_def isnan_def isinf_def)

theorem C5_hall_then_rule_of_thumb_witness:
  "AKDE_init (\<lambda>_. Inr [NaN]) (\<lambda>_. Inr [Fin 3]) data_2x1 None None = Inr (akde_bw [Fin 3]) \<and>
   kde_bw (kde_of (akde_bw [Fin 3])) = [Fin 3] \<and> bw_of (akde_bw [Fin 3]) = [Fin 3] \<and>
   AKDE_init (\<lambda>_. Inr [PInf]) (\<lambda>_. Inr [Fin 3]) data_2x1 None None = Inr (akde_bw [Fin 3]) \<and>
   AKDE_init (\<lambda>_. Inr [Fin 0]) (\<lambda>_. Inr [Fin 3]) data_2x1 None None = Inr (akde_bw [Fin 0]) \<and>
   kde_bw (kde_of (akde_bw [Fin 0])) = [Fin 0] \<and> bw_of (akde_bw [Fin 0]) = [Fin 0.001]"
  using C5_hall_then_rule_of_thumb [OF AKDE_init_nan]
    C5_hall_then_rule_of_thumb [OF AKDE_init_inf]
    C5_hall_then_rule_of_thumb [OF AKDE_init_finite]
  by (simp add: AKDE_init_nan AKDE_init_inf AKDE_init_finite akde_bw_def replace_zero_nth)

section \<open>Sampling (AKDE.sample)\<close>

subsection \<open>The random source\<close>

text \<open>
  \<open>np.random.normal\<close> and \<open>np.random.uniform\<close> read numpy's global generator. The model
  passes the generator along as the two sequences of values still to be drawn: a draw
  takes the first values of a sequence and leaves the rest.
\<close>

record rng =
  normals :: "nat \<Rightarrow> real"
  uniforms :: "nat \<Rightarrow> real"

definition random_normal :: "rng \<Rightarrow> nat \<Rightarrow> nat \<Rightarrow> ndarray \<times> rng" where
  "random_normal g n d =
     (\<lparr>ncols = d, rows = map (\<lambda>i. map (\<lambda>j. Fin (normals g (i * d + j))) [0..<d]) [0..<n]\<rparr>,
      g\<lparr>normals := (\<lambda>k. normals g (k + n * d))\<rparr>)"

definition random_uniform :: "rng \<Rightarrow> nat \<Rightarrow> real list \<times> rng" where
  "random_uniform g n =
     (map (uniforms g) [0..<n], g\<lparr>uniforms := (\<lambda>k. uniforms g (k + n))\<rparr>)"

subsection \<open>Array operations\<close>

fun cumsum_from :: "npfloat \<Rightarrow> npfloat list \<Rightarrow> npfloat list" where
  "cumsum_from acc [] = []"
| "cumsum_from acc (x # xs) = fadd acc x # cumsum_from (fadd acc x) xs"

definition np_cumsum :: "npfloat list \<Rightarrow> npfloat list" where
  "np_cumsum xs = cumsum_from (Fin 0) xs"

definition fmax :: "npfloat \<Rightarrow> npfloat \<Rightarrow> npfloat" where
  "fmax a b = (if isnan a \<or> isnan b then NaN else if flt a b then b else a)"

text \<open>\<open>np.amax\<close> of an array of no elements raises ValueError.\<close>

definition np_amax :: "npfloat list \<Rightarrow> pyexn + npfloat" where
  "np_amax xs = (case xs of [] \<Rightarrow> Inl ValueError | x # r \<Rightarrow> Inr (foldl fmax x r))"

text \<open>
  An elementwise operation on two one-dimensional arrays: equal lengths, or one of them of
  length one (broadcast); anything else raises ValueError.
\<close>

definition broadcast2 ::
  "(npfloat \<Rightarrow> npfloat \<Rightarrow> npfloat) \<Rightarrow> npfloat list \<Rightarrow> npfloat list \<Rightarrow> pyexn + npfloat list" where
  "broadcast2 f xs ys =
     (if length xs = length ys then Inr (map2 f xs ys)
      else if length xs = 1 then Inr (map (f (hd xs)) ys)
      else if length ys = 1 then Inr (map (\<lambda>x. f x (hd ys)) xs)
      else Inl ValueError)"

text \<open>\<open>points[ii, :] = v\<close>: the row must exist, and \<open>v\<close> must fit the row or have length one.\<close>

definition assign_row :: "ndarray \<Rightarrow> nat \<Rightarrow> npfloat list \<Rightarrow> pyexn + ndarray" where
  "assign_row points ii v =
     (if nrows points \<le> ii then Inl IndexError
      else if length v = ncols points then Inr (points\<lparr>rows := (rows points)[ii := v]\<rparr>)
      else if length v = 1 then Inr (points\<lparr>rows := (rows points)[ii := replicate (ncols points) (hd v)]\<rparr>)
      else Inl ValueError)"

subsection \<open>sample\<close>

text \<open>
  \<open>self._data[i, :] + (bw[i, :] * randnums[ii, :])\<close>, where \<open>bw\<close> is \<open>self._bw\<close> tiled once
  per kernel, so that \<open>bw[i, :]\<close> is \<open>self._bw\<close> for every kernel \<open>i\<close>.
\<close>

definition sample_row :: "akde \<Rightarrow> ndarray \<Rightarrow> nat \<Rightarrow> nat \<Rightarrow> pyexn + npfloat list" where
  "sample_row a randnums i ii =
     (if nrows (data_of a) \<le> i then Inl IndexError
      else if nrows randnums \<le> ii then Inl IndexError
      else case broadcast2 fmul (bw_of a) (rows randnums ! ii) of
             Inl e \<Rightarrow> Inl e
           | Inr noise \<Rightarrow> broadcast2 fadd (rows (data_of a) ! i) noise)"

text \<open>
  The inner loop \<open>while w[i] > t[ii]\<close> for one kernel \<open>i\<close>. Reading \<open>w[i]\<close> or \<open>t[ii]\<close> out
  of range raises IndexError.
\<close>

function sample_while ::
  "akde \<Rightarrow> ndarray \<Rightarrow> npfloat list \<Rightarrow> npfloat list \<Rightarrow> nat \<Rightarrow> ndarray \<Rightarrow> nat \<Rightarrow> pyexn + ndarray \<times> nat" where
  "sample_while a randnums w t i points ii =
     (if length w \<le> i then Inl IndexError
      else if length t \<le> ii then Inl IndexError
      else if fgt (w ! i) (t ! ii) then
        (case sample_row a randnums i ii of
           Inl e \<Rightarrow> Inl e
         | Inr v \<Rightarrow>
             (case assign_row points ii v of
                Inl e \<Rightarrow> Inl e
              | Inr points' \<Rightarrow> sample_while a randnums w t i points' (ii + 1)))
      else Inr (points, ii))"
  by pat_completeness auto
termination
  by (relation "measure (\<lambda>(a, randnums, w, t, i, points, ii). length t - ii)") auto

declare sample_while.simps [simp del]

text \<open>The outer loop \<open>for i in range(self._n_kernels)\<close>.\<close>

fun sample_for ::
  "akde \<Rightarrow> ndarray \<Rightarrow> npfloat list \<Rightarrow> npfloat list \<Rightarrow> nat list \<Rightarrow> ndarray \<Rightarrow> nat \<Rightarrow> pyexn + ndarray \<times> nat" where
  "sample_for a randnums w t [] points ii = Inr (points, ii)"
| "sample_for a randnums w t (i # is) points ii =
     (case sample_while a randnums w t i points ii of
        Inl e \<Rightarrow> Inl e
      | Inr (points', ii') \<Rightarrow> sample_for a randnums w t is points' ii')"

definition sample :: "akde \<Rightarrow> nat \<Rightarrow> rng \<Rightarrow> pyexn + ndarray \<times> rng" where
  "sample a n_samples g =
     (let points = np_zeros n_samples (n_features a);
          (randnums, g1) = random_normal g n_samples (n_features a);
          w = np_cumsum (weights a)
      in case np_amax w of
           Inl e \<Rightarrow> Inl e
         | Inr m \<Rightarrow>
             (let w = map (\<lambda>x. fdiv x m) w;
                  (u, g2) = random_uniform g1 n_samples;
                  t = map Fin (sort u) @ [Fin 1]
              in case sample_for a randnums w t [0..<n_kernels a] points 1 of
                   Inl e \<Rightarrow> Inl e
                 | Inr (points, ii) \<Rightarrow>
                     if nrows points \<noteq> n_samples then Inl AssertionError
                     else if ncols points \<noteq> ncols (data_of a) then Inl AssertionError
                     else Inr (points, g2)))"

subsection \<open>Properties of sample\<close>

text \<open>
  The loops change neither the shape of \<open>points\<close> nor, once \<open>ii\<close> is positive, its first
  row; and \<open>ii\<close> never decreases.
\<close>

lemma assign_row_inv:
  assumes "assign_row p ii v = Inr p'"
  shows "nrows p' = nrows p \<and> ncols p' = ncols p \<and> (wf_array p \<longrightarrow> wf_array p') \<and>
         (0 < ii \<longrightarrow> rows p' ! 0 = rows p ! 0)"
  using assms
  by (auto simp: assign_row_def nrows_def wf_array_def list_all_iff split: if_splits
      dest!: set_update_subset_insert [THEN subsetD])

lemma sample_while_inv:
  "sample_while a r w t i p ii = Inr (p', ii') \<Longrightarrow>
     nrows p' = nrows p \<and> ncols p' = ncols p \<and> ii \<le> ii' \<and> (wf_array p \<longrightarrow> wf_array p') \<and>
     (0 < ii \<longrightarrow> rows p' ! 0 = rows p ! 0)"
proof (induction a r w t i p ii rule: sample_while.induct)
  case (1 a r w t i p ii)
  show ?case
  proof (cases "\<not> length w \<le> i \<and> \<not> length t \<le> ii \<and> fgt (w ! i) (t ! ii)")
    case False
    with "1.prems" show ?thesis
      by (auto simp: sample_while.simps [of a r w t i p ii] split: if_splits)
  next
    case True
    with "1.prems" obtain v q where v: "sample_row a r i ii = Inr v"
      and q: "assign_row p ii v = Inr q"
      and rec: "sample_while a r w t i q (ii + 1) = Inr (p', ii')"
      by (auto simp: sample_while.simps [of a r w t i p ii] split: sum.splits)
    from True v q rec have ih: "nrows p' = nrows q \<and> ncols p' = ncols q \<and> ii + 1 \<le> ii' \<and>
        (wf_array q \<longrightarrow> wf_array p') \<and> (0 < ii + 1 \<longrightarrow> rows p' ! 0 = rows q ! 0)"
      using "1.IH" by simp
    from assign_row_inv [OF q] ih show ?thesis by auto
  qed
qed

lemma sample_for_inv:
  "sample_for a r w t is p ii = Inr (p', ii') \<Longrightarrow>
     nrows p' = nrows p \<and> ncols p' = ncols p \<and> ii \<le> ii' \<and> (wf_array p \<longrightarrow> wf_array p') \<and>
     (0 < ii \<longrightarrow> rows p' ! 0 = rows p ! 0)"
proof (induction "is" arbitrary: p ii)
  case Nil
  then show ?case by simp
next
  case (Cons i "is")
  from Cons.prems obtain q jj where w: "sample_while a r w t i p ii = Inr (q, jj)"
    and f: "sample_for a r w t is q jj = Inr (p', ii')"
    by (auto split: sum.splits)
  from sample_while_inv [OF w] Cons.IH [OF f] show ?case by auto
qed

lemma np_zeros_shape:
  "nrows (np_zeros n d) = n" "ncols (np_zeros n d) = d" "wf_array (np_zeros n d)"
  "0 < n \<Longrightarrow> rows (np_zeros n d) ! 0 = replicate d (Fin 0)"
  by (auto simp: np_zeros_def nrows_def wf_array_def list_all_iff)

lemma sample_result:
  assumes "sample a n g = Inr (p, g')"
  shows "nrows p = n \<and> ncols p = n_features a \<and> wf_array p \<and>
         (0 < n \<longrightarrow> rows p ! 0 = replicate (n_features a) (Fin 0))"
proof -
  from assms obtain r w t ii where
    f: "sample_for a r w t [0..<n_kernels a] (np_zeros n (n_features a)) 1 = Inr (p, ii)"
    by (auto simp: sample_def Let_def split: sum.splits prod.splits if_splits)
  from sample_for_inv [OF f] show ?thesis by (auto simp: np_zeros_shape)
qed

lemma sample_row_error:
  "sample_row a r i ii = Inl e \<Longrightarrow> e = IndexError \<or> e = ValueError"
  by (auto simp: sample_row_def broadcast2_def split: if_splits sum.splits)

lemma assign_row_error:
  "assign_row p ii v = Inl e \<Longrightarrow> e = IndexError \<or> e = ValueError"
  by (auto simp: assign_row_def split: if_splits)

lemma sample_while_error:
  "sample_while a r w t i p ii = Inl e \<Longrightarrow> e = IndexError \<or> e = ValueError"
proof (induction a r w t i p ii rule: sample_while.induct)
  case (1 a r w t i p ii)
  from "1.prems" show ?case
    using "1.IH" sample_row_error [of a r i ii e] 
    by (auto simp: sample_while.simps [of a r w t i p ii] split: if_splits sum.splits
        dest: assign_row_error)
qed

lemma sample_for_error:
  "sample_for a r w t is p ii = Inl e \<Longrightarrow> e = IndexError \<or> e = ValueError"
  by (induction "is" arbitrary: p ii) (auto split: sum.splits dest: sample_while_error)

lemma sample_no_assertion_error:
  assumes "n_features a = ncols (data_of a)"
  shows "sample a n g \<noteq> Inl AssertionError"
proof
  assume e: "sample a n g = Inl AssertionError"
  obtain r g1 where r: "random_normal g n (n_features a) = (r, g1)" by force
  obtain u g2 where u: "random_uniform g1 n = (u, g2)" by force
  from e obtain m where m: "np_amax (np_cumsum (weights a)) = Inr m"
    by (auto simp: sample_def Let_def r np_amax_def split: list.splits)
  define w where "w = map (\<lambda>x. fdiv x m) (np_cumsum (weights a))"
  define t where "t = map Fin (sort u) @ [Fin 1]"
  define res where "res = sample_for a r w t [0..<n_kernels a] (np_zeros n (n_features a)) 1"
  have s: "sample a n g = (case res of Inl e \<Rightarrow> Inl e
      | Inr (points, ii) \<Rightarrow> if nrows points \<noteq> n then Inl AssertionError
           else if ncols points \<noteq> ncols (data_of a) then Inl AssertionError
           else Inr (points, g2))"
    by (simp add: sample_def Let_def r u m w_def t_def res_def)
  show False
  proof (cases res)
    case (Inl x)
    with s e have "x = AssertionError" by simp
    with Inl sample_for_error [of a r w t "[0..<n_kernels a]" "np_zeros n (n_features a)" 1 x]
    show False by (simp add: res_def)
  next
    case (Inr pr)
    obtain p ii where pr: "pr = (p, ii)" by force
    from Inr pr sample_for_inv [of a r w t "[0..<n_kernels a]" "np_zeros n (n_features a)" 1 p ii]
    have "nrows p = n \<and> ncols p = n_features a"
      by (simp add: res_def np_zeros_shape)
    with s e Inr pr assms show False by simp
  qed
qed

lemma cumsum_from_length: "length (cumsum_from acc xs) = length xs"
  by (induction xs arbitrary: acc) auto

lemma sample_zero_raises:
  assumes "0 < n_kernels a" and "weights a \<noteq> []"
  shows "sample a 0 g = Inl IndexError"
proof -
  obtain x xs where c: "np_cumsum (weights a) = x # xs"
    using assms(2) cumsum_from_length [of "Fin 0" "weights a"]
    by (cases "np_cumsum (weights a)") (auto simp: np_cumsum_def)
  have u: "[0..<n_kernels a] = 0 # [1..<n_kernels a]"
    using assms(1) by (simp add: upt_conv_Cons)
  have w: "sample_while a r (map (\<lambda>y. fdiv y m) (x # xs)) [Fin 1] 0 p 1 = Inl IndexError" for r m p
    by (simp add: sample_while.simps)
  show ?thesis
    using w by (simp add: sample_def Let_def c np_amax_def u random_uniform_def random_normal_def)
qed

text \<open>A fitted estimator with two kernels at 5 and 7, and two random sources.\<close>

definition data_5_7 :: ndarray where
  "data_5_7 = \<lparr>ncols = 1, rows = [[Fin 5], [Fin 7]]\<rparr>"

definition akde_5_7 :: akde where
  "akde_5_7 =
     \<lparr>data_of = data_5_7, n_kernels = 2, n_features = 1,
      weights = [Fin (1/2), Fin (1/2)], bw_of = [Fin 1],
      kde_of = \<lparr>kde_data = data_5_7, var_type = ''c'', kde_bw = [Fin 1]\<rparr>\<rparr>"

lemma AKDE_init_5_7:
  "AKDE_init h r data_5_7 None (Some [Fin 1]) = Inr akde_5_7"
  by (simp add: AKDE_init_def select_bw_def data_5_7_def nrows_def replace_zero_nth
      akde_5_7_def)

definition rng_a :: rng where
  "rng_a = \<lparr>normals = (\<lambda>k. 3/10), uniforms = (\<lambda>k. if k = 0 then 1/5 else 7/10)\<rparr>"

definition rng_b :: rng where
  "rng_b = \<lparr>normals = (\<lambda>k. 3/10), uniforms = (\<lambda>k. 7/10)\<rparr>"

lemma upt_0_2: "[0..<2] = [0, Suc 0]"
  by (simp add: upt_conv_Cons numeral_2_eq_2)

lemma sample_5_7_two:
  "sample akde_5_7 2 rng_a = Inr (\<lparr>ncols = 1, rows = [[Fin 0], [Fin (73/10)]]\<rparr>, rng_b)"
  by (simp add: sample_def akde_5_7_def data_5_7_def rng_a_def rng_b_def Let_def
      random_normal_def random_uniform_def np_cumsum_def np_amax_def fmax_def isnan_def
      np_zeros_def upt_0_2 sample_while.simps fgt_def sample_row_def broadcast2_def
      assign_row_def nrows_def numeral_2_eq_2)

text \<open>
  C6. \<open>ii\<close> starts at 1, not 0: the first of the sorted thresholds is never compared with
  a kernel weight and the first row of the result is never written. Every result of one
  row or more starts with the zero row of \<open>np.zeros\<close>, which is no kernel center plus
  noise, and a call for \<open>n\<close> samples emits at most \<open>n - 1\<close> rows. In the example the
  thresholds are 0.2 and 0.7 and the cumulative weights 0.5 and 1: the kernel at 5 should
  answer the threshold 0.2 with the row 5.3, and the result has the row 0 in its place.
\<close>

theorem C6_first_row_never_sampled:
  assumes "sample a n g = Inr (p, g')" and "0 < n"
  shows "rows p ! 0 = replicate (n_features a) (Fin 0)"
  using sample_result [OF assms(1)] assms(2) by simp

theorem C6_first_row_never_sampled_witness:
  "sample akde_5_7 2 rng_a = Inr (\<lparr>ncols = 1, rows = [[Fin 0], [Fin (73/10)]]\<rparr>, rng_b) \<and>
   (0::nat) < 2 \<and>
   rows \<lparr>ncols = 1, rows = [[Fin 0], [Fin (73/10)]]\<rparr> ! 0 = replicate (n_features akde_5_7) (Fin 0)"
proof -
  have n: "(0::nat) < 2" by simp
  show ?thesis
    using C6_first_row_never_sampled [OF sample_5_7_two n] sample_5_7_two by simp
qed

text \<open>
  C10. A result of \<open>sample\<close> has the shape asked for and the two assertions cannot fail
  (\<open>sample_result\<close>, \<open>sample_no_assertion_error\<close>). But a call for no sample at all does
  not return: the thresholds are then the list \<open>[1.]\<close>, and the first test \<open>w[0] > t[1]\<close>
  reads past its end.
\<close>

theorem C10_sample_zero_raises:
  assumes "0 < n_kernels a" and "weights a \<noteq> []"
  shows "sample a 0 g = Inl IndexError"
  using sample_zero_raises [OF assms] .

theorem C10_sample_zero_raises_witness:
  "0 < n_kernels akde_5_7 \<and> weights akde_5_7 \<noteq> [] \<and> sample akde_5_7 0 rng_a = Inl IndexError"
proof -
  have k: "0 < n_kernels akde_5_7" and w: "weights akde_5_7 \<noteq> []"
    by (simp_all add: akde_5_7_def)
  show ?thesis
    using C10_sample_zero_raises [OF k w, of rng_a] k w by simp
qed

section \<open>Entropy (AKDE.entropy)\<close>

text \<open>\<open>np.mean\<close>: the sum over the number of elements (NaN for no element).\<close>

definition np_mean :: "npfloat list \<Rightarrow> npfloat" where
  "np_mean xs = fdiv (fsum xs) (Fin (real (length xs)))"

text \<open>
  Indexing by a boolean mask: the elements where the mask holds; a mask of another length
  raises IndexError.
\<close>

definition mask_select :: "npfloat list \<Rightarrow> bool list \<Rightarrow> pyexn + npfloat list" where
  "mask_select xs sel =
     (if length sel \<noteq> length xs then Inl IndexError
      else Inr (map fst (filter snd (zip xs sel))))"

definition entropy :: "density \<Rightarrow> akde \<Rightarrow> npfloat list list option \<Rightarrow> pyexn + npfloat" where
  "entropy pdf a data =
     (case data of
        Some pts \<Rightarrow>
          (case predict pdf a pts of
             Inl e \<Rightarrow> Inl e
           | Inr probs \<Rightarrow>
               (case mask_select probs (map (\<lambda>p. feq p (Fin 0)) probs) of
                  Inl e \<Rightarrow> Inl e
                | Inr zeros \<Rightarrow>
                    if np_any zeros then Inr NInf
                    else Inr (fneg (np_mean (map flog probs)))))
      | None \<Rightarrow>
          (case predict pdf a (rows (data_of a)) of
             Inl e \<Rightarrow> Inl e
           | Inr probs \<Rightarrow>
               (case mask_select (weights a) (map (\<lambda>p. fle p (Fin 0)) probs) of
                  Inl e \<Rightarrow> Inl e
                | Inr ws \<Rightarrow>
                    if np_any ws then Inr NInf
                    else Inr (fneg (fsum (map2 fmul
                           (map (\<lambda>p. flog (if feq p (Fin 0) then Fin 1 else p)) probs)
                           (weights a)))))))"

lemma mask_select_zeros:
  "mask_select probs (map (\<lambda>p. feq p (Fin 0)) probs) = Inr (filter (\<lambda>p. feq p (Fin 0)) probs)"
proof -
  have "map fst (filter snd (zip xs (map f xs))) = filter f xs" for f and xs :: "npfloat list"
    by (induction xs) auto
  then show ?thesis by (simp add: mask_select_def)
qed

lemma feq_zero: "feq p (Fin 0) \<longleftrightarrow> p = Fin 0"
  by (cases p) auto

lemma zero_guard_never_holds: "\<not> np_any (filter (\<lambda>p. feq p (Fin 0)) probs)"
  by (auto simp: np_any_def list_ex_iff truthy_def feq_zero)

lemma entropy_data:
  "predict pdf a pts = Inr probs \<Longrightarrow>
   entropy pdf a (Some pts) = Inr (fneg (np_mean (map flog probs)))"
  by (simp add: entropy_def mask_select_zeros zero_guard_never_holds)

definition density_value :: "npfloat \<Rightarrow> bool" where
  "density_value p = (case p of Fin x \<Rightarrow> 0 \<le> x | _ \<Rightarrow> False)"

lemma foldl_fadd_log:
  assumes "list_all density_value ps" and "acc = NInf \<or> (\<exists>x. acc = Fin x)"
  shows "foldl fadd acc (map flog ps) =
         (if acc = NInf \<or> Fin 0 \<in> set ps then NInf
          else Fin (foldl (+) (case acc of Fin x \<Rightarrow> x | _ \<Rightarrow> 0) (map (\<lambda>p. case p of Fin x \<Rightarrow> ln x | _ \<Rightarrow> 0) ps)))"
  using assms
proof (induction ps arbitrary: acc)
  case Nil
  then show ?case by auto
next
  case (Cons p ps)
  from Cons.prems obtain x where p: "p = Fin x" "0 \<le> x"
    by (cases p) (auto simp: density_value_def)
  show ?case
  proof (cases "x = 0")
    case True
    with p Cons.prems have "fadd acc (flog p) = NInf" by auto
    with Cons.IH [of NInf] Cons.prems p True show ?thesis by simp
  next
    case False
    show ?thesis
    proof (cases "acc = NInf")
      case True
      with p False have "fadd acc (flog p) = NInf" by simp
      with Cons.IH [of NInf] Cons.prems True show ?thesis by simp
    next
      case False
      with Cons.prems obtain y where y: "acc = Fin y" by auto
      with p \<open>x \<noteq> 0\<close> have "fadd acc (flog p) = Fin (y + ln x)" by simp
      with Cons.IH [of "Fin (y + ln x)"] Cons.prems p y \<open>x \<noteq> 0\<close> show ?thesis by simp
    qed
  qed
qed

text \<open>
  C2. With data given, the test \<open>np.any(probs[probs == 0.])\<close> asks whether any of the
  selected values, all of them zero, is non-zero: it never holds
  (\<open>zero_guard_never_holds\<close>), and \<open>entropy\<close> always returns the negative mean of the
  log-densities (\<open>entropy_data\<close>). When a point has density exactly zero that mean is
  minus infinity, so the value returned is plus infinity, not minus infinity.
\<close>

theorem C2_zero_density_gives_plus_infinity:
  assumes "predict pdf a pts = Inr probs"
      and "list_all density_value probs"
      and "Fin 0 \<in> set probs"
  shows "entropy pdf a (Some pts) = Inr PInf"
proof -
  have "fsum (map flog probs) = NInf"
    using foldl_fadd_log [OF assms(2), of "Fin 0"] assms(3) by (simp add: fsum_def)
  moreover have "0 < length probs" using assms(3) by (cases probs) auto
  ultimately have "np_mean (map flog probs) = NInf" by (simp add: np_mean_def)
  with entropy_data [OF assms(1)] show ?thesis by simp
qed

definition pdf_first :: density where
  "pdf_first k pts = Inr (map hd pts)"

theorem C2_zero_density_gives_plus_infinity_witness:
  "predict pdf_first akde_5_7 [[Fin 0], [Fin 1]] = Inr [Fin 0, Fin 1] \<and>
   list_all density_value [Fin 0, Fin 1] \<and> Fin 0 \<in> set [Fin 0, Fin 1] \<and>
   entropy pdf_first akde_5_7 (Some [[Fin 0], [Fin 1]]) = Inr PInf \<and>
   entropy pdf_first akde_5_7 (Some [[Fin 0], [Fin 1]]) \<noteq> Inr NInf"
proof -
  have p: "predict pdf_first akde_5_7 [[Fin 0], [Fin 1]] = Inr [Fin 0, Fin 1]"
    by (simp add: predict_def pdf_first_def)
  have d: "list_all density_value [Fin 0, Fin 1]" by (simp add: density_value_def)
  have z: "Fin 0 \<in> set [Fin 0, Fin 1]" by simp
  show ?thesis
    using C2_zero_density_gives_plus_infinity [OF p d z] p d z by simp
qed

section \<open>The Rule-of-Thumb bandwidth (AKDE.\_ksizeROT)\<close>

text \<open>
  The selector as the source computes it, with \<open>/\<close> the true division of Python 3 in the
  exponent \<open>-1 / (4 + dim)\<close>. The numpy and scipy functions it calls are written out for
  the finite values and the special values: \<open>np.std\<close> is the population standard
  deviation, and \<open>stats.iqr\<close> the difference of the 75th and 25th percentiles, each
  interpolated linearly between the two nearest order statistics.
\<close>

definition fsub :: "npfloat \<Rightarrow> npfloat \<Rightarrow> npfloat" where
  "fsub a b = fadd a (fneg b)"

fun fsqrt :: "npfloat \<Rightarrow> npfloat" where
  "fsqrt (Fin x) = (if x < 0 then NaN else Fin (sqrt x))"
| "fsqrt PInf = PInf"
| "fsqrt NInf = NaN"
| "fsqrt NaN = NaN"

definition np_std :: "npfloat list \<Rightarrow> npfloat" where
  "np_std xs =
     (let m = np_mean xs
      in fsqrt (np_mean (map (\<lambda>x. fmul (fsub x m) (fsub x m)) xs)))"

text \<open>\<open>np.minimum\<close>: the smaller value, NaN when either is NaN.\<close>

definition fmin :: "npfloat \<Rightarrow> npfloat \<Rightarrow> npfloat" where
  "fmin a b = (if isnan a \<or> isnan b then NaN else if flt b a then b else a)"

fun insort_f :: "npfloat \<Rightarrow> npfloat list \<Rightarrow> npfloat list" where
  "insort_f x [] = [x]"
| "insort_f x (y # ys) = (if flt y x then y # insort_f x ys else x # y # ys)"

definition sort_f :: "npfloat list \<Rightarrow> npfloat list" where
  "sort_f xs = foldr insort_f xs []"

text \<open>
  \<open>np.percentile(x, q)\<close> with linear interpolation, \<open>q\<close> given as a fraction: NaN for an
  array with a NaN, or with no element.
\<close>

definition percentile :: "npfloat list \<Rightarrow> real \<Rightarrow> npfloat" where
  "percentile xs q =
     (if xs = [] \<or> list_ex isnan xs then NaN
      else let s = sort_f xs;
               idx = q * real (length xs - 1);
               lo = nat \<lfloor>idx\<rfloor>;
               hi = min (lo + 1) (length xs - 1)
           in fadd (s ! lo) (fmul (fsub (s ! hi) (s ! lo)) (Fin (idx - real lo))))"

text \<open>\<open>stats.iqr(x)\<close>: with no \<open>axis\<close> given, over the whole array, flattened.\<close>

definition stats_iqr :: "npfloat list \<Rightarrow> npfloat" where
  "stats_iqr xs = fsub (percentile xs (3/4)) (percentile xs (1/4))"

text \<open>The rows of \<open>np.transpose(X)\<close>: one per dimension.\<close>

definition dimensions :: "ndarray \<Rightarrow> npfloat list list" where
  "dimensions X = map (\<lambda>j. map (\<lambda>r. r ! j) (rows X)) [0..<ncols X]"

text \<open>\<open>np.power(N, e)\<close> for the sample count \<open>N\<close> and a negative float \<open>e\<close>.\<close>

definition np_power :: "nat \<Rightarrow> real \<Rightarrow> npfloat" where
  "np_power N e = (if N = 0 then PInf else Fin (real N powr e))"

definition ksizeROT :: selector where
  "ksizeROT X =
     (let dim = ncols X;
          N = nrows X;
          prop = Fin 1;
          sig = map np_std (dimensions X);
          iqrSig = fmul (Fin 0.7413) (stats_iqr (concat (rows X)));
          factor = np_power N (- 1 / (4 + real dim))
      in Inr (if feq iqrSig (Fin 0)
              then map (\<lambda>s. fmul (fmul prop (fmin s s)) factor) sig
              else map (\<lambda>s. fmul (fmul prop (fmin s iqrSig)) factor) sig))"

text \<open>
  The claim's words: for each dimension, the smaller of the standard deviation and
  0.7413 times the interquartile range of that dimension, with the standard deviation
  in place of the latter when the interquartile range is zero in every dimension.
\<close>

definition rot_per_dimension :: "ndarray \<Rightarrow> npfloat list" where
  "rot_per_dimension X =
     (let sig = map np_std (dimensions X);
          iqrs = map (\<lambda>xs. fmul (Fin 0.7413) (stats_iqr xs)) (dimensions X);
          iqrs = (if list_all (\<lambda>q. feq q (Fin 0)) iqrs then sig else iqrs);
          factor = np_power (nrows X) (- 1 / (4 + real (ncols X)))
      in map2 (\<lambda>s q. fmul (fmin s q) factor) sig iqrs)"

definition data_const_binary :: ndarray where
  "data_const_binary =
     \<lparr>ncols = 2, rows = [[Fin 0, Fin (-1)], [Fin 0, Fin (-1)], [Fin 0, Fin 1], [Fin 0, Fin 1]]\<rparr>"

lemma dims_const_binary:
  "dimensions data_const_binary = [[Fin 0, Fin 0, Fin 0, Fin 0], [Fin (-1), Fin (-1), Fin 1, Fin 1]]"
  by (simp add: dimensions_def data_const_binary_def upt_0_2)

lemma std_const: "np_std [Fin 0, Fin 0, Fin 0, Fin 0] = Fin 0"
  by (simp add: np_std_def np_mean_def fsum_def fsub_def)

lemma std_binary: "np_std [Fin (-1), Fin (-1), Fin 1, Fin 1] = Fin 1"
  by (simp add: np_std_def np_mean_def fsum_def fsub_def)

lemma iqr_pooled:
  "stats_iqr (concat (rows data_const_binary)) = Fin (1/2)"
  by (simp add: stats_iqr_def percentile_def data_const_binary_def isnan_def sort_f_def
      fsub_def Let_def)

lemma iqr_const: "stats_iqr [Fin 0, Fin 0, Fin 0, Fin 0] = Fin 0"
  by (simp add: stats_iqr_def percentile_def isnan_def sort_f_def fsub_def Let_def)

lemma iqr_binary: "stats_iqr [Fin (-1), Fin (-1), Fin 1, Fin 1] = Fin 2"
  by (simp add: stats_iqr_def percentile_def isnan_def sort_f_def fsub_def Let_def)

lemma ksizeROT_const_binary:
  "ksizeROT data_const_binary = Inr [Fin 0, Fin (0.37065 * 4 powr (- 1/6))]"
proof -
  have n: "nrows data_const_binary = 4" "ncols data_const_binary = 2"
    by (simp_all add: nrows_def data_const_binary_def)
  show ?thesis
    by (simp add: ksizeROT_def Let_def dims_const_binary std_const std_binary iqr_pooled n
        np_power_def fmin_def isnan_def)
qed

lemma rot_per_dimension_const_binary:
  "rot_per_dimension data_const_binary = [Fin 0, Fin (4 powr (- 1/6))]"
proof -
  have n: "nrows data_const_binary = 4" "ncols data_const_binary = 2"
    by (simp_all add: nrows_def data_const_binary_def)
  show ?thesis
    by (simp add: rot_per_dimension_def Let_def dims_const_binary std_const std_binary
        iqr_const iqr_binary n np_power_def fmin_def isnan_def)
qed

text \<open>
  C9. \<open>stats.iqr\<close> is called with no \<open>axis\<close>, so the interquartile range is one number,
  taken over the values of all dimensions together, and not one per dimension. For a
  constant first feature and a second feature of values -1, -1, 1, 1 the pooled range is
  0.5 while the second dimension's own range is 2: the source returns
  0.37065 N^(-1/6) for that dimension, where the standard deviation 1 is the smaller of
  the dimension's two values and the claim gives N^(-1/6).
\<close>

theorem C9_iqr_over_all_dimensions:
  "ksizeROT data_const_binary = Inr [Fin 0, Fin (0.37065 * 4 powr (- 1/6))] \<and>
   rot_per_dimension data_const_binary = [Fin 0, Fin (4 powr (- 1/6))] \<and>
   ksizeROT data_const_binary \<noteq> Inr (rot_per_dimension data_const_binary)"
  by (simp add: ksizeROT_const_binary rot_per_dimension_const_binary)

section \<open>The fingerprint modeler (fingerprint\_modeler.py)\<close>

subsection \<open>\_sample\<close>

text \<open>Python list indexing with an int: a negative index counts from the end.\<close>

definition py_index :: "'a list \<Rightarrow> int \<Rightarrow> pyexn + 'a" where
  "py_index xs i =
     (if 0 \<le> i \<and> i < int (length xs) then Inr (xs ! nat i)
      else if i < 0 \<and> - int (length xs) \<le> i then Inr (xs ! nat (int (length xs) + i))
      else Inl IndexError)"

text \<open>\<open>int(x)\<close> of a float truncates towards zero; NaN and the infinities raise.\<close>

fun py_int :: "npfloat \<Rightarrow> pyexn + int" where
  "py_int (Fin x) = Inr (if 0 \<le> x then \<lfloor>x\<rfloor> else \<lceil>x\<rceil>)"
| "py_int NaN = Inl ValueError"
| "py_int PInf = Inl OverflowError"
| "py_int NInf = Inl OverflowError"

text \<open>
  \<open>sample_size * web_priors[site]\<close> is a float64 product, and \<open>int\<close> truncates it: the
  count of a site depends on how the product is rounded (\<open>49 * (1/49.)\<close> is
  \<open>0.9999999999999999\<close>, and its \<open>int\<close> is 0). The rounding of an exact result to
  float64 is a parameter \<open>rnd\<close> of the model, and every statement below holds for any
  rounding.
\<close>

type_synonym rounding = "real \<Rightarrow> real"

definition mul64 :: "rounding \<Rightarrow> npfloat \<Rightarrow> npfloat \<Rightarrow> npfloat" where
  "mul64 rnd a b = (case fmul a b of Fin z \<Rightarrow> Fin (rnd z) | v \<Rightarrow> v)"

text \<open>
  The inner loop of \<open>_sample\<close> over \<open>zip(self.data.sites, site_mkdes)\<close>, with
  \<open>group_samples\<close> as accumulator. The models are the estimators of the sections above
  and \<open>mkde.sample\<close> is their \<open>sample\<close> (see \<open>make_kde\<close> below for the class the
  modeler imports).
\<close>

fun sample_group ::
  "rounding \<Rightarrow> int \<Rightarrow> npfloat list \<Rightarrow> (int \<times> akde) list \<Rightarrow> npfloat list list \<Rightarrow> rng \<Rightarrow>
     pyexn + npfloat list list \<times> rng" where
  "sample_group rnd sample_size web_priors [] group_samples g = Inr (group_samples, g)"
| "sample_group rnd sample_size web_priors ((site, mkde) # rest) group_samples g =
     (case py_index web_priors site of
        Inl e \<Rightarrow> Inl e
      | Inr prior \<Rightarrow>
          (case py_int (mul64 rnd (Fin (real_of_int sample_size)) prior) of
             Inl e \<Rightarrow> Inl e
           | Inr num \<Rightarrow>
               if 0 < num then
                 (case sample mkde (nat num) g of
                    Inl e \<Rightarrow> Inl e
                  | Inr (x, g') \<Rightarrow>
                      sample_group rnd sample_size web_priors rest (group_samples @ rows x) g')
               else sample_group rnd sample_size web_priors rest group_samples g))"

text \<open>The outer loop over the clusters' model lists; \<open>sites\<close> is \<open>self.data.sites\<close>.\<close>

fun fm_sample ::
  "rounding \<Rightarrow> int list \<Rightarrow> akde list list \<Rightarrow> npfloat list \<Rightarrow> int \<Rightarrow> rng \<Rightarrow>
     pyexn + npfloat list list list \<times> rng" where
  "fm_sample rnd sites [] web_priors sample_size g = Inr ([], g)"
| "fm_sample rnd sites (site_mkdes # mkdes) web_priors sample_size g =
     (case sample_group rnd sample_size web_priors (zip sites site_mkdes) [] g of
        Inl e \<Rightarrow> Inl e
      | Inr (group_samples, g') \<Rightarrow>
          (case fm_sample rnd sites mkdes web_priors sample_size g' of
             Inl e \<Rightarrow> Inl e
           | Inr (samples, g'') \<Rightarrow> Inr (group_samples # samples, g'')))"

text \<open>
  The spec's allotment of a site: floor(sample budget times prior), the product being the
  float64 product.
\<close>

definition prior_at :: "npfloat list \<Rightarrow> int \<Rightarrow> real" where
  "prior_at web_priors site = (case py_index web_priors site of Inr (Fin p) \<Rightarrow> p | _ \<Rightarrow> 0)"

definition product_at :: "rounding \<Rightarrow> int \<Rightarrow> npfloat list \<Rightarrow> int \<Rightarrow> real" where
  "product_at rnd sample_size web_priors site =
     rnd (real_of_int sample_size * prior_at web_priors site)"

definition allotment :: "rounding \<Rightarrow> int \<Rightarrow> npfloat list \<Rightarrow> int \<Rightarrow> nat" where
  "allotment rnd sample_size web_priors site = nat \<lfloor>product_at rnd sample_size web_priors site\<rfloor>"

text \<open>What one site adds to the pool: nothing, or the rows of a draw from its model.\<close>

definition site_draw ::
  "rounding \<Rightarrow> int \<Rightarrow> npfloat list \<Rightarrow> int \<times> akde \<Rightarrow> npfloat list list \<Rightarrow> bool" where
  "site_draw rnd sample_size web_priors sm d =
     (length d = allotment rnd sample_size web_priors (fst sm) \<and>
      (if allotment rnd sample_size web_priors (fst sm) = 0 then d = []
       else \<exists>g x g'. sample (snd sm) (allotment rnd sample_size web_priors (fst sm)) g = Inr (x, g')
              \<and> d = rows x))"

lemma py_int_nat:
  "py_int (mul64 rnd (Fin (real_of_int sz)) prior) = Inr num \<Longrightarrow> py_index ps site = Inr prior \<Longrightarrow>
   nat num = allotment rnd sz ps site \<and> (0 < num \<longleftrightarrow> 0 < allotment rnd sz ps site)"
  by (cases prior)
     (auto simp: allotment_def product_at_def prior_at_def mul64_def inf_of_sign_def
       split: if_splits)

text \<open>A site of allotment zero is passed over: no call of its \<open>sample\<close>, no random draw.\<close>

lemma sample_group_skip:
  assumes "py_index ps site = Inr (Fin p)" and "allotment rnd sz ps site = 0"
  shows "sample_group rnd sz ps ((site, mkde) # rest) acc g = sample_group rnd sz ps rest acc g"
proof -
  from assms have "\<lfloor>rnd (real_of_int sz * p)\<rfloor> \<le> 0"
    by (simp add: allotment_def product_at_def prior_at_def)
  then have "\<not> 0 < (if 0 \<le> rnd (real_of_int sz * p) then \<lfloor>rnd (real_of_int sz * p)\<rfloor>
      else \<lceil>rnd (real_of_int sz * p)\<rceil>)"
    by (auto simp: not_less ceiling_le_iff)
  with assms(1) show ?thesis by (simp add: mul64_def)
qed

lemma sample_group_draws:
  "sample_group rnd sz ps pairs acc g = Inr (pool, g') \<Longrightarrow>
   \<exists>draws. pool = acc @ concat draws \<and> list_all2 (site_draw rnd sz ps) pairs draws"
proof (induction pairs arbitrary: acc g)
  case Nil
  then show ?case by simp
next
  case (Cons sm rest)
  obtain site mkde where sm: "sm = (site, mkde)" by force
  from Cons.prems sm obtain prior num where
    p: "py_index ps site = Inr prior" and
    n: "py_int (mul64 rnd (Fin (real_of_int sz)) prior) = Inr num"
    by (auto split: sum.splits)
  note a = py_int_nat [OF n p]
  show ?case
  proof (cases "0 < num")
    case False
    with Cons.prems sm p n have "sample_group rnd sz ps rest acc g = Inr (pool, g')" by simp
    from Cons.IH [OF this] obtain draws where
      d: "pool = acc @ concat draws" "list_all2 (site_draw rnd sz ps) rest draws" by blast
    from False a have "site_draw rnd sz ps sm []" by (simp add: site_draw_def sm)
    with d have "pool = acc @ concat ([] # draws) \<and>
        list_all2 (site_draw rnd sz ps) (sm # rest) ([] # draws)"
      by simp
    then show ?thesis by blast
  next
    case True
    with Cons.prems sm p n obtain x g1 where
      x: "sample mkde (nat num) g = Inr (x, g1)" and
      r: "sample_group rnd sz ps rest (acc @ rows x) g1 = Inr (pool, g')"
      by (auto split: sum.splits)
    from Cons.IH [OF r] obtain draws where
      d: "pool = (acc @ rows x) @ concat draws" "list_all2 (site_draw rnd sz ps) rest draws"
      by blast
    from sample_result [OF x] have "length (rows x) = nat num" by (simp add: nrows_def)
    with True a x have "site_draw rnd sz ps sm (rows x)"
      by (auto simp: site_draw_def sm)
    with d have "pool = acc @ concat (rows x # draws) \<and>
        list_all2 (site_draw rnd sz ps) (sm # rest) (rows x # draws)"
      by simp
    then show ?thesis by blast
  qed
qed

definition pooled ::
  "rounding \<Rightarrow> int \<Rightarrow> npfloat list \<Rightarrow> int list \<Rightarrow> akde list \<Rightarrow> npfloat list list \<Rightarrow> bool" where
  "pooled rnd sample_size web_priors sites site_mkdes pool =
     (\<exists>draws. pool = concat draws \<and>
        list_all2 (site_draw rnd sample_size web_priors) (zip sites site_mkdes) draws)"

lemma fm_sample_pooled:
  "fm_sample rnd sites mkdes ps sz g = Inr (samples, g') \<Longrightarrow>
   list_all2 (pooled rnd sz ps sites) mkdes samples"
proof (induction mkdes arbitrary: samples g)
  case Nil
  then show ?case by simp
next
  case (Cons ms mkdes)
  from Cons.prems obtain pool g1 rest where
    a: "sample_group rnd sz ps (zip sites ms) [] g = Inr (pool, g1)" and
    b: "fm_sample rnd sites mkdes ps sz g1 = Inr (rest, g')" and
    c: "samples = pool # rest"
    by (auto split: sum.splits)
  from sample_group_draws [OF a] have "pooled rnd sz ps sites ms pool"
    by (simp add: pooled_def)
  with Cons.IH [OF b] c show ?case by simp
qed

lemma draws_length:
  "list_all2 (site_draw rnd sz ps) pairs draws \<Longrightarrow>
   length (concat draws) = sum_list (map (\<lambda>sm. allotment rnd sz ps (fst sm)) pairs)"
  by (induction pairs draws rule: list_all2_induct) (auto simp: site_draw_def)

lemma allotment_le_product:
  "real (allotment rnd sz ps s) \<le> max 0 (product_at rnd sz ps s)"
  by (cases "0 \<le> product_at rnd sz ps s") (auto simp: allotment_def of_nat_nat)

lemma allotment_sum_bound:
  "real (sum_list (map (allotment rnd sz ps) ss)) \<le>
   sum_list (map (\<lambda>s. max 0 (product_at rnd sz ps s)) ss)"
proof (induction ss)
  case Nil
  then show ?case by simp
next
  case (Cons s ss)
  with allotment_le_product [of rnd sz ps s] show ?case by simp
qed

lemma sum_list_take_le:
  assumes "\<forall>x \<in> set xs. (0::real) \<le> f x"
  shows "sum_list (map f (take n xs)) \<le> sum_list (map f xs)"
proof -
  have "sum_list (map f xs) = sum_list (map f (take n xs)) + sum_list (map f (drop n xs))"
    by (metis append_take_drop_id map_append sum_list.append)
  moreover have "0 \<le> sum_list (map f (drop n xs))"
    using assms by (auto intro!: sum_list_nonneg dest!: in_set_dropD)
  ultimately show ?thesis by simp
qed

lemma pooled_bound:
  assumes p: "pooled rnd sz ps sites ms pool"
      and lt: "sum_list (map (\<lambda>s. max 0 (product_at rnd sz ps s)) sites) < real_of_int sz + 1"
  shows "length pool \<le> nat sz"
proof -
  from p obtain draws where d: "pool = concat draws"
    "list_all2 (site_draw rnd sz ps) (zip sites ms) draws" by (auto simp: pooled_def)
  define ss where "ss = map fst (zip sites ms)"
  have ss: "ss = take (min (length sites) (length ms)) sites"
    by (simp add: ss_def map_fst_zip_take)
  have len: "length pool = sum_list (map (allotment rnd sz ps) ss)"
    using draws_length [OF d(2)] d(1) by (simp add: ss_def comp_def)
  have "sum_list (map (\<lambda>s. max 0 (product_at rnd sz ps s)) ss) \<le>
      sum_list (map (\<lambda>s. max 0 (product_at rnd sz ps s)) sites)"
    unfolding ss by (rule sum_list_take_le) simp
  with allotment_sum_bound [of rnd sz ps ss] lt len
  have "real (length pool) < real_of_int sz + 1" by simp
  then have "int (length pool) < sz + 1" by linarith
  then show ?thesis by simp
qed

text \<open>
  The condition of the bound, from its usual causes: priors that are not negative and sum
  to one (or less) up to their own rounding, a sample size below \<open>2^51\<close>, and a rounding
  that raises a product by no more than one part in \<open>2^53\<close>.
\<close>

lemma rounded_products_bound:
  assumes sz: "0 \<le> sz" "real_of_int sz < 2 ^ 51"
      and nn: "\<forall>s \<in> set sites. 0 \<le> prior_at ps s"
      and le1: "sum_list (map (prior_at ps) sites) \<le> 1 + 1 / 2 ^ 53"
      and rnd: "\<forall>x. 0 \<le> x \<longrightarrow> rnd x \<le> x * (1 + 1 / 2 ^ 53)"
  shows "sum_list (map (\<lambda>s. max 0 (product_at rnd sz ps s)) sites) < real_of_int sz + 1"
proof -
  define k :: real where "k = 1 + 1 / 2 ^ 53"
  define c where "c = real_of_int sz * k"
  have k1: "1 \<le> k" by (simp add: k_def)
  define m :: real where "m = 1 + 1 / 2 ^ 51"
  have kk: "k * k \<le> m" by (simp add: k_def m_def field_simps)
  have r: "rnd x \<le> x * k" if "0 \<le> x" for x
    using rnd that unfolding k_def by blast
  have c0: "0 \<le> c" using sz(1) k1 by (simp add: c_def)
  have each: "max 0 (product_at rnd sz ps s) \<le> c * prior_at ps s" if "s \<in> set sites" for s
  proof -
    from that nn sz(1) have x: "0 \<le> real_of_int sz * prior_at ps s" by simp
    from r [OF x] have "product_at rnd sz ps s \<le> c * prior_at ps s"
      by (simp add: product_at_def c_def ac_simps)
    moreover from that nn c0 have "0 \<le> c * prior_at ps s" by simp
    ultimately show ?thesis by simp
  qed
  have "sum_list (map (\<lambda>s. max 0 (product_at rnd sz ps s)) sites) \<le>
      sum_list (map (\<lambda>s. c * prior_at ps s) sites)"
    by (rule sum_list_mono) (rule each)
  also have "\<dots> = c * sum_list (map (prior_at ps) sites)"
    by (rule sum_list_const_mult)
  also have "\<dots> \<le> c * k"
  proof -
    from le1 have "sum_list (map (prior_at ps) sites) \<le> k" by (simp add: k_def)
    then show ?thesis using c0 by (rule mult_left_mono)
  qed
  also have "c * k = real_of_int sz * (k * k)"
    by (simp add: c_def)
  also have "\<dots> \<le> real_of_int sz * m"
    using kk by (rule mult_left_mono) (use sz(1) in simp)
  also have "\<dots> = real_of_int sz + real_of_int sz / 2 ^ 51"
    by (simp add: m_def algebra_simps)
  also have "\<dots> < real_of_int sz + 1"
    using sz(2) by simp
  finally show ?thesis .
qed

lemma sample_5_7_two_b:
  "sample akde_5_7 2 rng_b = Inr (\<lparr>ncols = 1, rows = [[Fin 0], [Fin (73/10)]]\<rparr>, rng_b)"
  by (simp add: sample_def akde_5_7_def data_5_7_def rng_b_def Let_def
      random_normal_def random_uniform_def np_cumsum_def np_amax_def fmax_def isnan_def
      np_zeros_def upt_0_2 sample_while.simps fgt_def sample_row_def broadcast2_def
      assign_row_def nrows_def numeral_2_eq_2)

text \<open>
  Three sites with priors 0.5, 0.5 and 0 and a sample size of 5: the products 2.5, 2.5
  and 0 are float64 values, so nothing is rounded. The third site has the allotment zero;
  a call of its \<open>sample\<close> for no sample would raise.
\<close>

lemma fm_sample_example:
  "fm_sample (\<lambda>x. x) [0, 1, 2] [[akde_5_7, akde_5_7, akde_5_7]] [Fin (1/2), Fin (1/2), Fin 0] 5 rng_a =
     Inr ([[[Fin 0], [Fin (73/10)], [Fin 0], [Fin (73/10)]]], rng_b)"
  by (simp add: py_index_def mul64_def sample_5_7_two sample_5_7_two_b)

lemma sample_5_7_zero: "sample akde_5_7 0 rng_b = Inl IndexError"
  by (rule sample_zero_raises) (simp_all add: akde_5_7_def)

text \<open>
  C7. When \<open>_sample\<close> returns, it returns one pool for each cluster's list of models. A
  pool is the concatenation, in the order of the sites, of what each site adds: nothing
  when floor(sample budget times prior) is zero, and otherwise the rows of one call of
  that site's \<open>sample\<close> for exactly floor(sample budget times prior) samples, the product
  being the float64 product. A site of allotment zero is skipped: its model is not asked
  and the loop goes on as if the site were not there. When the products of the sample
  budget and the sites' priors sum to less than the budget plus one, as they do for
  priors that sum to one, a pool has at most sample budget rows.
\<close>

theorem C7_sample_pool:
  assumes "fm_sample rnd sites mkdes web_priors sample_size g = Inr (samples, g')"
      and "sum_list (map (\<lambda>s. max 0 (product_at rnd sample_size web_priors s)) sites)
             < real_of_int sample_size + 1"
  shows "list_all2 (\<lambda>site_mkdes pool.
            pooled rnd sample_size web_priors sites site_mkdes pool \<and>
            length pool \<le> nat sample_size)
          mkdes samples \<and>
         (\<forall>site p mkde rest group_samples g0.
            py_index web_priors site = Inr (Fin p) \<longrightarrow>
            allotment rnd sample_size web_priors site = 0 \<longrightarrow>
            sample_group rnd sample_size web_priors ((site, mkde) # rest) group_samples g0 =
            sample_group rnd sample_size web_priors rest group_samples g0)"
proof -
  have "list_all2 (\<lambda>site_mkdes pool.
            pooled rnd sample_size web_priors sites site_mkdes pool \<and>
            length pool \<le> nat sample_size)
          mkdes samples"
    using fm_sample_pooled [OF assms(1)] pooled_bound [OF _ assms(2)]
    by (auto elim!: list_all2_mono)
  then show ?thesis using sample_group_skip by blast
qed

theorem C7_sample_pool_witness:
  "fm_sample (\<lambda>x. x) [0, 1, 2] [[akde_5_7, akde_5_7, akde_5_7]] [Fin (1/2), Fin (1/2), Fin 0] 5 rng_a =
     Inr ([[[Fin 0], [Fin (73/10)], [Fin 0], [Fin (73/10)]]], rng_b) \<and>
   sum_list (map (\<lambda>s. max 0 (product_at (\<lambda>x. x) 5 [Fin (1/2), Fin (1/2), Fin 0] s)) [0, 1, 2])
     < real_of_int 5 + 1 \<and>
   pooled (\<lambda>x. x) 5 [Fin (1/2), Fin (1/2), Fin 0] [0, 1, 2] [akde_5_7, akde_5_7, akde_5_7]
     [[Fin 0], [Fin (73/10)], [Fin 0], [Fin (73/10)]] \<and>
   length [[Fin 0], [Fin (73/10)], [Fin 0], [Fin (73/10::real)]] \<le> nat 5 \<and>
   allotment (\<lambda>x. x) 5 [Fin (1/2), Fin (1/2), Fin 0] 0 = 2 \<and>
   allotment (\<lambda>x. x) 5 [Fin (1/2), Fin (1/2), Fin 0] 2 = 0 \<and>
   sample akde_5_7 0 rng_b = Inl IndexError \<and>
   sample_group (\<lambda>x. x) 5 [Fin (1/2), Fin (1/2), Fin 0] [(2, akde_5_7)] [] rng_b = Inr ([], rng_b)"
proof -
  have lt: "sum_list (map (\<lambda>s. max 0 (product_at (\<lambda>x. x) 5 [Fin (1/2), Fin (1/2), Fin 0] s)) [0, 1, 2])
      < real_of_int 5 + 1"
    by (simp add: product_at_def prior_at_def py_index_def)
  have a0: "allotment (\<lambda>x. x) 5 [Fin (1/2), Fin (1/2), Fin 0] 0 = 2"
    by (simp add: allotment_def product_at_def prior_at_def py_index_def)
  have a2: "allotment (\<lambda>x. x) 5 [Fin (1/2), Fin (1/2), Fin 0] 2 = 0"
    by (simp add: allotment_def product_at_def prior_at_def py_index_def)
  have p2: "py_index [Fin (1/2), Fin (1/2), Fin 0] 2 = Inr (Fin 0)"
    by (simp add: py_index_def)
  note t = C7_sample_pool [OF fm_sample_example lt]
  from t have "sample_group (\<lambda>x. x) 5 [Fin (1/2), Fin (1/2), Fin 0] ((2, akde_5_7) # []) [] rng_b =
      sample_group (\<lambda>x. x) 5 [Fin (1/2), Fin (1/2), Fin 0] [] [] rng_b"
    using p2 a2 by blast
  then have skip: "sample_group (\<lambda>x. x) 5 [Fin (1/2), Fin (1/2), Fin 0] [(2, akde_5_7)] [] rng_b =
      Inr ([], rng_b)"
    by simp
  from t show ?thesis
    using fm_sample_example lt a0 a2 sample_5_7_zero skip by simp
qed

subsection \<open>The collaborators\<close>

text \<open>
  The argument of \<open>information_leakage\<close>: a feature index, or a list (of features, or of
  clusters). \<open>isinstance(x, Iterable)\<close> holds of the lists only.
\<close>

datatype clusters_arg = Feature int | Items "clusters_arg list"

text \<open>
  \<open>WebsiteData\<close> belongs to the dataset module: its list of sites and its two column
  readers are what the modeler uses of it. A reader returns a one-dimensional array, or
  raises.
\<close>

record website_data =
  sites :: "int list"
  get_site :: "int \<Rightarrow> clusters_arg \<Rightarrow> pyexn + npfloat list"
  get_feature :: "clusters_arg \<Rightarrow> pyexn + npfloat list"

record modeler =
  data :: website_data
  sample_size :: int

text \<open>
  What the estimator takes from numpy, scipy and statsmodels, and the float64 rounding
  of the priors and of their products with the sample size.
\<close>

record numerics =
  hall_of :: selector
  rot_of :: selector
  pdf_of :: density
  round64 :: rounding

text \<open>A list comprehension whose elements may raise: the first exception ends it.\<close>

fun collect :: "(pyexn + 'a) list \<Rightarrow> pyexn + 'a list" where
  "collect [] = Inr []"
| "collect (x # xs) =
     (case x of
        Inl e \<Rightarrow> Inl e
      | Inr v \<Rightarrow> (case collect xs of Inl e \<Rightarrow> Inl e | Inr vs \<Rightarrow> Inr (v # vs)))"

subsection \<open>\_make\_kde\<close>

text \<open>
  The loop over the features: \<open>X\<close> is \<open>None\<close> until the first column, then grows by
  \<open>np.hstack\<close>, which raises ValueError for a column of another length.
\<close>

fun build_X ::
  "(clusters_arg \<Rightarrow> pyexn + npfloat list) \<Rightarrow> clusters_arg list \<Rightarrow> ndarray option \<Rightarrow>
     pyexn + ndarray option" where
  "build_X column [] X = Inr X"
| "build_X column (feature # features) X =
     (case column feature of
        Inl e \<Rightarrow> Inl e
      | Inr X_f \<Rightarrow>
          (case X of
             None \<Rightarrow> build_X column features (Some \<lparr>ncols = 1, rows = map (\<lambda>v. [v]) X_f\<rparr>)
           | Some x \<Rightarrow>
               if nrows x \<noteq> length X_f then Inl ValueError
               else build_X column features
                      (Some \<lparr>ncols = ncols x + 1, rows = map2 (\<lambda>r v. r @ [v]) (rows x) X_f\<rparr>)))"

text \<open>
  Modelled from the spec: the class \<open>KDE\<close> that fingerprint\_modeler.py imports is not
  among the sources. The spec names the AKDE estimator as the density model the modeler
  builds, samples and evaluates, so \<open>KDE(X)\<close> is \<open>AKDE(X)\<close> with no weights and no
  bandwidth. \<open>KDE(None)\<close>, for no feature at all, reads \<open>None.shape\<close>.
\<close>

definition make_kde :: "numerics \<Rightarrow> website_data \<Rightarrow> clusters_arg \<Rightarrow> int option \<Rightarrow> pyexn + akde" where
  "make_kde lib d features site =
     (let features = (case features of Items fs \<Rightarrow> fs | Feature f \<Rightarrow> [Feature f]);
          column = (case site of Some s \<Rightarrow> get_site d s | None \<Rightarrow> get_feature d)
      in case build_X column features None of
           Inl e \<Rightarrow> Inl e
         | Inr None \<Rightarrow> Inl AttributeError
         | Inr (Some X) \<Rightarrow> AKDE_init (hall_of lib) (rot_of lib) X None None)"

subsection \<open>information\_leakage\<close>

text \<open>Lines 130 to 133: the argument as a list of clusters.\<close>

definition normalize_clusters :: "clusters_arg \<Rightarrow> pyexn + clusters_arg list" where
  "normalize_clusters clusters =
     (let cs = (case clusters of Items xs \<Rightarrow> xs | Feature f \<Rightarrow> [Feature f])
      in case cs of
           [] \<Rightarrow> Inl IndexError
         | Feature f # _ \<Rightarrow> Inr [Items cs]
         | Items xs # _ \<Rightarrow> Inr cs)"

text \<open>\<open>math.log(x, 2)\<close>: a ValueError for an argument that is not positive.\<close>

fun math_log2 :: "npfloat \<Rightarrow> pyexn + npfloat" where
  "math_log2 (Fin x) = (if x \<le> 0 then Inl ValueError else Inr (Fin (ln x / ln 2)))"
| "math_log2 PInf = Inr PInf"
| "math_log2 NInf = Inl ValueError"
| "math_log2 NaN = Inr NaN"

text \<open>\<open>h = lambda x: -x * math.log(x, 2)\<close>\<close>

definition h :: "npfloat \<Rightarrow> pyexn + npfloat" where
  "h x = (case math_log2 x of Inl e \<Rightarrow> Inl e | Inr l \<Rightarrow> Inr (fmul (fneg x) l))"

text \<open>\<open>sum([h(p) for p in ps if p > 0])\<close>\<close>

definition shannon :: "npfloat list \<Rightarrow> pyexn + npfloat" where
  "shannon ps =
     (case collect (map h (filter (\<lambda>p. fgt p (Fin 0)) ps)) of
        Inl e \<Rightarrow> Inl e
      | Inr hs \<Rightarrow> Inr (fsum hs))"

text \<open>
  Lines 156 to 161. \<open>prob\<close> is the number 1 before the first cluster (\<open>None\<close> here), then
  an array that \<open>*=\<close> multiplies in place: the other array must have its length, or
  length one.
\<close>

definition imul :: "npfloat list \<Rightarrow> npfloat list \<Rightarrow> pyexn + npfloat list" where
  "imul p q =
     (if length q = length p then Inr (map2 fmul p q)
      else if length q = 1 then Inr (map (\<lambda>x. fmul x (hd q)) p)
      else Inl ValueError)"

fun site_product ::
  "npfloat list option \<Rightarrow> npfloat list list list \<Rightarrow> nat \<Rightarrow> pyexn + npfloat list option" where
  "site_product prob [] i = Inr prob"
| "site_product prob (c # cs) i =
     (if length c \<le> i then Inl IndexError
      else case prob of
             None \<Rightarrow> site_product (Some (map (fmul (Fin 1)) (c ! i))) cs i
           | Some p \<Rightarrow>
               (case imul p (c ! i) of
                  Inl e \<Rightarrow> Inl e
                | Inr p' \<Rightarrow> site_product (Some p') cs i))"

definition joint_probs :: "npfloat list list list \<Rightarrow> pyexn + npfloat list list" where
  "joint_probs cluster_prob_set =
     (case cluster_prob_set of
        [] \<Rightarrow> Inl IndexError
      | c # _ \<Rightarrow>
          collect (map (\<lambda>i. case site_product None cluster_prob_set i of
                               Inl e \<Rightarrow> Inl e
                             | Inr None \<Rightarrow> Inr [Fin 1]
                             | Inr (Some p) \<Rightarrow> Inr p)
                       [0..<length c]))"

text \<open>
  \<open>np.array(prob_set).transpose((1, 0))\<close>: the arrays must make a two-dimensional array,
  which no array at all, or arrays of different lengths, do not.
\<close>

definition np_transpose :: "npfloat list list \<Rightarrow> pyexn + npfloat list list" where
  "np_transpose prob_set =
     (case prob_set of
        [] \<Rightarrow> Inl ValueError
      | p # _ \<Rightarrow>
          if list_all (\<lambda>q. length q = length p) prob_set
          then Inr (map (\<lambda>k. map (\<lambda>q. q ! k) prob_set) [0..<length p])
          else Inl ValueError)"

text \<open>Lines 167 to 172: weighting by the priors, and normalizing.\<close>

definition weigh :: "npfloat list list \<Rightarrow> npfloat list \<Rightarrow> npfloat list list" where
  "weigh prob_set website_priors = map (\<lambda>prob_inst. map2 fmul prob_inst website_priors) prob_set"

definition normalize :: "npfloat list list \<Rightarrow> npfloat list list" where
  "normalize prob_temp = map (\<lambda>prob_inst. map (\<lambda>prob. fdiv prob (fsum prob_inst)) prob_inst) prob_temp"

text \<open>Lines 175 to 177: the messages that \<open>logger.warn\<close> is given.\<close>

datatype log_entry = Warn npfloat | LogException clusters_arg

definition drift_warnings :: "npfloat list list \<Rightarrow> log_entry list" where
  "drift_warnings prob_indiv =
     map Warn (filter (\<lambda>s. flt s (Fin 0.99)) (map fsum prob_indiv))"

text \<open>Lines 167 to 184: from the joint densities to \<open>H_CF\<close>, with the warnings.\<close>

definition conditional_entropy ::
  "npfloat list list \<Rightarrow> npfloat list \<Rightarrow> pyexn + log_entry list \<times> npfloat" where
  "conditional_entropy prob_set website_priors =
     (let prob_temp = weigh prob_set website_priors;
          prob_indiv = normalize prob_temp;
          warnings = drift_warnings prob_indiv
      in case collect (map shannon prob_indiv) of
           Inl e \<Rightarrow> Inl e
         | Inr entropies \<Rightarrow>
             if length entropies = 0 then Inl ZeroDivisionError
             else Inr (warnings, fdiv (fsum entropies) (Fin (real (length entropies)))))"

text \<open>The body of the \<open>try\<close>.\<close>

definition leakage_body ::
  "numerics \<Rightarrow> modeler \<Rightarrow> clusters_arg \<Rightarrow> rng \<Rightarrow> pyexn + log_entry list \<times> npfloat" where
  "leakage_body lib m clusters g =
     (case normalize_clusters clusters of
        Inl e \<Rightarrow> Inl e
      | Inr clusters \<Rightarrow>
     (case collect (map (\<lambda>features.
              collect (map (\<lambda>site. make_kde lib (data m) features (Some site)) (sites (data m))))
            clusters) of
        Inl e \<Rightarrow> Inl e
      | Inr cluster_mkdes \<Rightarrow>
     (let website_priors =
            map (\<lambda>_. Fin (round64 lib (1 / real (length (sites (data m)))))) (sites (data m))
      in case shannon website_priors of
        Inl e \<Rightarrow> Inl e
      | Inr H_C \<Rightarrow>
     (case fm_sample (round64 lib) (sites (data m)) cluster_mkdes website_priors (sample_size m) g of
        Inl e \<Rightarrow> Inl e
      | Inr (cluster_samples, g') \<Rightarrow>
     (case collect (map (\<lambda>(site_mkdes, samples).
              collect (map (\<lambda>mkde. predict (pdf_of lib) mkde samples) site_mkdes))
            (zip cluster_mkdes cluster_samples)) of
        Inl e \<Rightarrow> Inl e
      | Inr cluster_prob_set \<Rightarrow>
     (case joint_probs cluster_prob_set of
        Inl e \<Rightarrow> Inl e
      | Inr prob_set \<Rightarrow>
     (case np_transpose prob_set of
        Inl e \<Rightarrow> Inl e
      | Inr prob_set \<Rightarrow>
     (case conditional_entropy prob_set website_priors of
        Inl e \<Rightarrow> Inl e
      | Inr (warnings, H_CF) \<Rightarrow> Inr (warnings, fadd H_C (fneg H_CF))))))))))"

text \<open>
  The \<open>except\<close> clause. Its expression is evaluated when an exception arrives, and the
  exception is caught when it matches the value: an instance of the class, for a class.
  For a value that is no class (and no tuple), Python 2 finds no match and the exception
  goes on; Python 3 raises TypeError in its place.
\<close>

datatype pyver = Python2 | Python3

datatype pyobj = ClassObj pyexn | BoolObj bool

fun py_truth :: "pyobj \<Rightarrow> bool" where
  "py_truth (ClassObj c) = True"
| "py_truth (BoolObj b) = b"

definition py_not :: "pyobj \<Rightarrow> pyobj" where
  "py_not v = BoolObj (\<not> py_truth v)"

fun except_clause :: "pyver \<Rightarrow> pyexn \<Rightarrow> pyobj \<Rightarrow> pyexn + bool" where
  "except_clause ver e (ClassObj c) = Inr (e = c)"
| "except_clause Python2 e (BoolObj b) = Inr False"
| "except_clause Python3 e (BoolObj b) = Inl TypeError"

text \<open>
  \<open>information_leakage\<close>: the messages logged, and the exception raised or the value
  returned (\<open>None\<close> from the handler).
\<close>

definition information_leakage ::
  "pyver \<Rightarrow> numerics \<Rightarrow> modeler \<Rightarrow> clusters_arg \<Rightarrow> rng \<Rightarrow>
     log_entry list \<times> (pyexn + npfloat option)" where
  "information_leakage ver lib m clusters g =
     (case leakage_body lib m clusters g of
        Inr (warnings, leakage) \<Rightarrow> (warnings, Inr (Some leakage))
      | Inl e \<Rightarrow>
          (case except_clause ver e (py_not (ClassObj KeyboardInterrupt)) of
             Inl e' \<Rightarrow> ([], Inl e')
           | Inr caught \<Rightarrow>
               if caught then ([LogException clusters], Inr None) else ([], Inl e)))"

subsection \<open>Properties of information\_leakage\<close>

lemma handler_never_matches:
  "except_clause ver e (py_not (ClassObj KeyboardInterrupt)) =
     (case ver of Python2 \<Rightarrow> Inr False | Python3 \<Rightarrow> Inl TypeError)"
  by (cases ver) (simp_all add: py_not_def)

lemma leakage_body_empty: "leakage_body lib m (Items []) g = Inl IndexError"
  by (simp add: leakage_body_def normalize_clusters_def)

text \<open>
  C1. The handler is written \<open>except not KeyboardInterrupt\<close>, and \<open>not KeyboardInterrupt\<close>
  is \<open>False\<close>: no exception matches it. Every exception of the body leaves
  \<open>information_leakage\<close> (as itself in Python 2, as a TypeError in Python 3), nothing is
  logged by the handler and \<open>None\<close> is never returned. An empty list of clusters, whose
  first element the body reads, is an example.
\<close>

theorem C1_handler_catches_nothing:
  "information_leakage ver lib m clusters g =
     (case leakage_body lib m clusters g of
        Inr (warnings, leakage) \<Rightarrow> (warnings, Inr (Some leakage))
      | Inl e \<Rightarrow> ([], Inl (case ver of Python2 \<Rightarrow> e | Python3 \<Rightarrow> TypeError))) \<and>
   snd (information_leakage ver lib m clusters g) \<noteq> Inr None \<and>
   information_leakage Python2 lib m (Items []) g = ([], Inl IndexError) \<and>
   information_leakage Python3 lib m (Items []) g = ([], Inl TypeError)"
  by (cases ver)
     (auto simp: information_leakage_def handler_never_matches leakage_body_empty
       split: sum.splits prod.splits)

lemma h_of_positive: "fgt p (Fin 0) \<Longrightarrow> \<exists>v. h p = Inr v"
  by (cases p) (auto simp: h_def fgt_def)

lemma collect_total:
  "(\<And>x. x \<in> set xs \<Longrightarrow> \<exists>v. f x = Inr v) \<Longrightarrow>
   \<exists>vs. collect (map f xs) = Inr vs \<and> length vs = length xs"
proof (induction xs)
  case Nil
  then show ?case by simp
next
  case (Cons x xs)
  then obtain v vs where "f x = Inr v" "collect (map f xs) = Inr vs" "length vs = length xs"
    by (metis list.set_intros(1) list.set_intros(2))
  then show ?case by simp
qed

lemma shannon_total: "\<exists>v. shannon ps = Inr v"
proof -
  have "\<exists>vs. collect (map h (filter (\<lambda>p. fgt p (Fin 0)) ps)) = Inr vs \<and>
      length vs = length (filter (\<lambda>p. fgt p (Fin 0)) ps)"
    by (rule collect_total) (auto intro: h_of_positive)
  then show ?thesis by (auto simp: shannon_def)
qed

lemma entropies_total:
  "\<exists>es. collect (map shannon vs) = Inr es \<and> length es = length vs"
  by (rule collect_total) (rule shannon_total)

text \<open>
  The check does not stop the estimate: for one sample or more, the entropies of all the
  normalized vectors are computed, none of them raises, and their mean is returned with
  the warnings.
\<close>

lemma conditional_entropy_returns:
  assumes "prob_set \<noteq> []"
  shows "\<exists>entropies.
           collect (map shannon (normalize (weigh prob_set website_priors))) = Inr entropies \<and>
           conditional_entropy prob_set website_priors =
             Inr (drift_warnings (normalize (weigh prob_set website_priors)),
                  fdiv (fsum entropies) (Fin (real (length entropies))))"
proof -
  obtain es where es: "collect (map shannon (normalize (weigh prob_set website_priors))) = Inr es"
    "length es = length (normalize (weigh prob_set website_priors))"
    using entropies_total by blast
  with assms have "length es \<noteq> 0" by (simp add: normalize_def weigh_def)
  with es have "conditional_entropy prob_set website_priors =
      Inr (drift_warnings (normalize (weigh prob_set website_priors)),
           fdiv (fsum es) (Fin (real (length es))))"
    by (simp add: conditional_entropy_def Let_def)
  with es(1) show ?thesis by blast
qed

text \<open>
  An estimate that meets the case: two sites with the same observations 1000 and 1002
  of one feature, a bandwidth of 1 and a sample size of 2. Each site is asked for one
  sample and returns the zero row (see C6), where the density of either site underflows
  to 0.0. Both posterior vectors are NaN, nothing is logged, and the leakage returned is
  the whole class entropy of 1 bit.
\<close>

definition data_far :: ndarray where
  "data_far = \<lparr>ncols = 1, rows = [[Fin 1000], [Fin 1002]]\<rparr>"

definition akde_far :: akde where
  "akde_far =
     \<lparr>data_of = data_far, n_kernels = 2, n_features = 1,
      weights = [Fin (1/2), Fin (1/2)], bw_of = [Fin 1],
      kde_of = \<lparr>kde_data = data_far, var_type = ''c'', kde_bw = [Fin 1]\<rparr>\<rparr>"

definition lib_far :: numerics where
  "lib_far =
     \<lparr>hall_of = (\<lambda>X. Inr [Fin 1]), rot_of = (\<lambda>X. Inr [Fin 1]),
      pdf_of = (\<lambda>k pts. Inr (map (\<lambda>p. if p = [Fin 0] then Fin 0 else Fin 1) pts)),
      round64 = (\<lambda>x. x)\<rparr>"

definition modeler_far :: modeler where
  "modeler_far =
     \<lparr>data = \<lparr>sites = [0, 1],
              get_site = (\<lambda>site feature. Inr [Fin 1000, Fin 1002]),
              get_feature = (\<lambda>feature. Inr [Fin 1000, Fin 1002, Fin 1000, Fin 1002])\<rparr>,
      sample_size = 2\<rparr>"

lemma make_kde_far:
  "make_kde lib_far (data modeler_far) (Items [Feature 0]) (Some site) = Inr akde_far"
  by (simp add: make_kde_def lib_far_def modeler_far_def AKDE_init_def select_bw_def
      degenerate_def isnan_def isinf_def nrows_def replace_zero_nth akde_far_def data_far_def)

lemma sample_far_a:
  "sample akde_far 1 rng_a = Inr (\<lparr>ncols = 1, rows = [[Fin 0]]\<rparr>, rng_b)"
  by (simp add: sample_def akde_far_def data_far_def rng_a_def rng_b_def Let_def
      random_normal_def random_uniform_def np_cumsum_def np_amax_def fmax_def isnan_def
      np_zeros_def upt_0_2 sample_while.simps fgt_def sample_row_def broadcast2_def
      assign_row_def nrows_def numeral_2_eq_2)

lemma sample_far_b:
  "sample akde_far 1 rng_b = Inr (\<lparr>ncols = 1, rows = [[Fin 0]]\<rparr>, rng_b)"
  by (simp add: sample_def akde_far_def data_far_def rng_b_def Let_def
      random_normal_def random_uniform_def np_cumsum_def np_amax_def fmax_def isnan_def
      np_zeros_def upt_0_2 sample_while.simps fgt_def sample_row_def broadcast2_def
      assign_row_def nrows_def numeral_2_eq_2)

lemma fm_sample_far:
  "fm_sample (\<lambda>x. x) [0, 1] [[akde_far, akde_far]] [Fin (1/2), Fin (1/2)] 2 rng_a =
     Inr ([[[Fin 0], [Fin 0]]], rng_b)"
  using sample_far_a sample_far_b by (simp add: py_index_def mul64_def)

lemma h_half: "h (Fin (1/2)) = Inr (Fin (1/2))"
proof -
  have "ln (1/2 :: real) = - ln 2" by (simp add: ln_div)
  moreover have "ln (2::real) \<noteq> 0" by simp
  ultimately show ?thesis by (simp add: h_def)
qed

lemma shannon_half: "shannon [Fin (1/2), Fin (1/2)] = Inr (Fin 1)"
  by (simp add: shannon_def fgt_def h_half fsum_def)

lemma leakage_far:
  "information_leakage ver lib_far modeler_far (Feature 0) rng_a = ([], Inr (Some (Fin 1)))"
proof -
  have k: "make_kde lib_far (data modeler_far) f (Some s) = Inr akde_far" if "f = Items [Feature 0]" for f s
    using that make_kde_far by simp
  have s: "sites (data modeler_far) = [0, 1]" "sample_size modeler_far = 2"
    "round64 lib_far = (\<lambda>x. x)"
    by (simp_all add: modeler_far_def lib_far_def)
  have p: "predict (pdf_of lib_far) akde_far [[Fin 0], [Fin 0]] = Inr [Fin 0, Fin 0]"
    by (simp add: predict_def lib_far_def)
  have j: "joint_probs [[[Fin 0, Fin 0], [Fin 0, Fin 0]]] = Inr [[Fin 0, Fin 0], [Fin 0, Fin 0]]"
    by (simp add: joint_probs_def upt_0_2)
  have t: "np_transpose [[Fin 0, Fin 0], [Fin 0, Fin 0]] = Inr [[Fin 0, Fin 0], [Fin 0, Fin 0]]"
    by (simp add: np_transpose_def upt_0_2)
  have c: "conditional_entropy [[Fin 0, Fin 0], [Fin 0, Fin 0]] [Fin (1/2), Fin (1/2)] = Inr ([], Fin 0)"
    by (simp add: normalize_def weigh_def fsum_def inf_of_sign_def
      drift_warnings_def conditional_entropy_def shannon_def fgt_def)
  have "leakage_body lib_far modeler_far (Feature 0) rng_a = Inr ([], Fin 1)"
    by (simp add: leakage_body_def normalize_clusters_def Let_def s k shannon_half fm_sample_far
        p j t c del: fm_sample.simps sample_group.simps)
  then show ?thesis by (simp add: information_leakage_def)
qed

text \<open>The sum is within 0.01 of 1, or it deviates.\<close>

definition sum_deviates :: "npfloat \<Rightarrow> bool" where
  "sum_deviates s = (\<not> (fle (Fin 0.99) s \<and> fle s (Fin 1.01)))"

text \<open>
  C8. The check is \<open>sum(prob_inst) < 0.99\<close>, with the message that the sum of the
  probabilities does not equal 1. Where every joint density of a sample is zero, the
  normalized vector is 0/0 throughout and its sum is NaN: the sum is not within 0.01 of
  1, but \<open>NaN < 0.99\<close> is false and nothing is logged. The estimate goes on, with
  entropy 0 for that sample.
\<close>

theorem C8_nan_sum_not_warned:
  "normalize (weigh [[Fin 0, Fin 0]] [Fin (1/2), Fin (1/2)]) = [[NaN, NaN]] \<and>
   fsum [NaN, NaN] = NaN \<and> sum_deviates NaN \<and>
   drift_warnings [[NaN, NaN]] = [] \<and>
   conditional_entropy [[Fin 0, Fin 0]] [Fin (1/2), Fin (1/2)] = Inr ([], Fin 0)"
  by (simp add: normalize_def weigh_def fsum_def inf_of_sign_def sum_deviates_def fle_def
      drift_warnings_def conditional_entropy_def shannon_def fgt_def)

end
